theory Spec2Isabelle
  imports Main "HOL-Library.Word" "HOL-Library.Sublist"
begin

section \<open>JavaScript values used by the Thread component\<close>

text \<open>
  A JavaScript string is a sequence of 16-bit code units; \<open>===\<close> on two strings
  compares the sequences, \<open>length\<close> counts code units.
\<close>

type_synonym js_string = "16 word list"

text \<open>
  The value read from \<open>(stream.error as any).message\<close> is untyped. Numbers are
  modelled by integers (zero is falsy), objects by their identity.
\<close>

datatype js_value =
    JUndefined
  | JNull
  | JBool bool
  | JNum int
  | JStr js_string
  | JObj nat

fun truthy :: "js_value \<Rightarrow> bool" where
  "truthy JUndefined = False"
| "truthy JNull = False"
| "truthy (JBool b) = b"
| "truthy (JNum n) = (n \<noteq> 0)"
| "truthy (JStr s) = (s \<noteq> [])"
| "truthy (JObj _) = True"

text \<open>
  \<open>String.prototype.trim\<close> strips WhiteSpace and LineTerminator code units from
  both ends: TAB, LF, VT, FF, CR, SP, NBSP, U+1680, U+2000..U+200A, LS, PS, U+202F,
  U+205F, U+3000 and the byte order mark.
\<close>

definition is_whitespace :: "16 word \<Rightarrow> bool" where
  "is_whitespace c =
     (c \<in> set [0x0009, 0x000A, 0x000B, 0x000C, 0x000D, 0x0020, 0x00A0, 0x1680,
                 0x2000, 0x2001, 0x2002, 0x2003, 0x2004, 0x2005, 0x2006, 0x2007,
                 0x2008, 0x2009, 0x200A, 0x2028, 0x2029, 0x202F, 0x205F, 0x3000,
                 0xFEFF])"

definition trim :: "js_string \<Rightarrow> js_string" where
  "trim s = rev (dropWhile is_whitespace (rev (dropWhile is_whitespace s)))"

text \<open>\<open>String.prototype.startsWith\<close>, code unit by code unit.\<close>

fun startsWith :: "js_string \<Rightarrow> js_string \<Rightarrow> bool" where
  "startsWith s [] = True"
| "startsWith [] (p # ps) = False"
| "startsWith (c # cs) (p # ps) = (c = p \<and> startsWith cs ps)"

section \<open>Messages, content blocks and checkpoints\<close>

datatype message_type = Human | Ai | Tool

datatype content_block =
    TextBlock js_string
  | AttachmentBlock js_string js_string

record tool_call =
  tc_id :: js_string
  tc_name :: js_string

text \<open>
  \<open>msg_id\<close> is optional (\<open>m.id?.\<close> in the source); \<open>tool_call_id\<close> is present on
  tool messages only.
\<close>

record message =
  msg_id :: "js_string option"
  msg_type :: message_type
  msg_content :: "content_block list"
  tool_calls :: "tool_call list"
  tool_call_id :: "js_string option"

text \<open>A checkpoint is an opaque reference issued by the backend.\<close>

datatype checkpoint = Checkpoint js_string

text \<open>The argument of \<open>handleRegenerate\<close> has type \<open>Checkpoint | null | undefined\<close>.\<close>

datatype checkpoint_arg = CkUndefined | CkNull | CkAt checkpoint

section \<open>Calls to the transport\<close>

type_synonym artifact_context = "(js_string \<times> js_value) list"

record submit_payload =
  p_messages :: "message list"
  p_context :: "artifact_context option"

text \<open>
  The \<open>streamMode\<close> option lists string literals; the handlers pass
  \<open>["values"]\<close>, the transport also knows incremental modes.
\<close>

datatype stream_mode = Values | Updates

text \<open>
  The \<open>optimisticValues\<close> option is a closure over the variables of the handler
  that builds it; the closure is represented by the variables it captured.
  \<open>OptimisticSubmit\<close> is the one built by \<open>handleSubmit\<close>,
  \<open>OptimisticPrompt\<close> the one built by \<open>handleSuggestedPrompt\<close>.
\<close>

datatype optimistic =
    OptimisticSubmit "artifact_context option" "message list" message
  | OptimisticPrompt message

record submit_options =
  o_checkpoint :: "checkpoint_arg option"
  o_streamMode :: "stream_mode list"
  o_streamSubgraphs :: bool
  o_streamResumable :: bool
  o_optimisticValues :: "optimistic option"

record submit_call =
  payload :: "submit_payload option"
  options :: submit_options

text \<open>
  The thread values an optimistic update is applied to. Other keys of \<open>prev\<close> are
  the extension of the record, which \<open>{...prev, ...}\<close> keeps.
\<close>

record thread_values =
  v_messages :: "message list option"
  v_context :: "artifact_context option"

fun apply_optimistic ::
  "optimistic \<Rightarrow> 'a thread_values_scheme \<Rightarrow> 'a thread_values_scheme" where
  "apply_optimistic (OptimisticSubmit ctx toolMessages newHumanMessage) prev =
     prev\<lparr>v_context := ctx,
          v_messages := Some ((case v_messages prev of None \<Rightarrow> [] | Some ms \<Rightarrow> ms)
                               @ toolMessages @ [newHumanMessage])\<rparr>"
| "apply_optimistic (OptimisticPrompt newHumanMessage) prev =
     prev\<lparr>v_messages := Some ((case v_messages prev of None \<Rightarrow> [] | Some ms \<Rightarrow> ms)
                               @ [newHumanMessage])\<rparr>"

section \<open>State of the Thread component\<close>

text \<open>
  The hooks and refs of \<open>Thread\<close>, the part of the stream context it reads
  (\<open>messages\<close>, \<open>isLoading\<close>), and two logs of its calls to the outside:
  \<open>submitted\<close> for \<open>stream.submit\<close> and \<open>toasts\<close> for \<open>toast.error\<close>, oldest
  first.
\<close>

record thread_state =
  threadId :: "js_string option"
  artifactContext :: artifact_context
  artifactOpen :: bool
  input :: js_string
  contentBlocks :: "content_block list"
  firstTokenReceived :: bool
  lastError :: js_value
  prevMessageLength :: int
  messages :: "message list"
  isLoading :: bool
  submitted :: "submit_call list"
  toasts :: "js_value list"

text \<open>
  \<open>stream.error\<close> as the error effect sees it: falsy, or truthy with the outcome
  of reading its \<open>message\<close> property (a value, or an exception raised by the read,
  which the \<open>try\<close> block catches).
\<close>

datatype property_read = Reads js_value | Raises

datatype stream_error = NoError | Error property_read

subsection \<open>The error effect\<close>

fun error_effect :: "stream_error \<Rightarrow> thread_state \<Rightarrow> thread_state" where
  "error_effect NoError s = s\<lparr>lastError := JUndefined\<rparr>"
| "error_effect (Error Raises) s = s"
| "error_effect (Error (Reads message)) s =
     (if \<not> truthy message \<or> lastError s = message then s
      else s\<lparr>lastError := message, toasts := toasts s @ [message]\<rparr>)"

text \<open>The effect runs once for each new value of \<open>stream.error\<close>.\<close>

fun error_effects :: "stream_error list \<Rightarrow> thread_state \<Rightarrow> thread_state" where
  "error_effects [] s = s"
| "error_effects (e # es) s = error_effects es (error_effect e s)"

subsection \<open>The first-token effect\<close>

text \<open>
  Runs after every change of \<open>messages\<close>. \<open>messages[messages.length - 1]\<close> is
  read only when the length is non-zero.
\<close>

definition messages_effect :: "thread_state \<Rightarrow> thread_state" where
  "messages_effect s =
     (let s' = (if int (length (messages s)) \<noteq> prevMessageLength s
                   \<and> length (messages s) \<noteq> 0
                   \<and> msg_type (last (messages s)) = Ai
                then s\<lparr>firstTokenReceived := True\<rparr> else s)
      in s'\<lparr>prevMessageLength := int (length (messages s))\<rparr>)"

subsection \<open>Submission handlers\<close>

definition submit_mode_options :: "optimistic option \<Rightarrow> submit_options" where
  "submit_mode_options opt =
     \<lparr>o_checkpoint = None, o_streamMode = [Values], o_streamSubgraphs = True,
      o_streamResumable = True, o_optimisticValues = opt\<rparr>"

text \<open>
  \<open>handleSubmit\<close> imports \<open>ensureToolCallsHaveResponses\<close> from
  \<open>@/lib/ensure-tool-responses\<close> and takes it here as the parameter \<open>ensure\<close>;
  \<open>uuid\<close> is the value \<open>uuidv4()\<close> returns in this call. \<open>e.preventDefault()\<close>
  acts on the event only.
\<close>

definition handleSubmit ::
  "(message list \<Rightarrow> message list) \<Rightarrow> js_string \<Rightarrow> thread_state \<Rightarrow> thread_state" where
  "handleSubmit ensure uuid s =
     (if (length (trim (input s)) = 0 \<and> length (contentBlocks s) = 0) \<or> isLoading s
      then s
      else
        let newHumanMessage =
              \<lparr>msg_id = Some uuid, msg_type = Human,
               msg_content = (if length (trim (input s)) > 0 then [TextBlock (input s)] else [])
                             @ contentBlocks s,
               tool_calls = [], tool_call_id = None\<rparr>;
            toolMessages = ensure (messages s);
            ctx = (if length (map fst (artifactContext s)) > 0
                   then Some (artifactContext s) else None);
            call = \<lparr>payload = Some \<lparr>p_messages = toolMessages @ [newHumanMessage],
                                     p_context = ctx\<rparr>,
                    options = submit_mode_options
                                (Some (OptimisticSubmit ctx toolMessages newHumanMessage))\<rparr>
        in s\<lparr>firstTokenReceived := False,
             submitted := submitted s @ [call],
             input := [],
             contentBlocks := []\<rparr>)"

definition handleSuggestedPrompt :: "js_string \<Rightarrow> js_string \<Rightarrow> thread_state \<Rightarrow> thread_state" where
  "handleSuggestedPrompt uuid prompt s =
     (if isLoading s then s
      else
        let newHumanMessage =
              \<lparr>msg_id = Some uuid, msg_type = Human,
               msg_content = [TextBlock prompt],
               tool_calls = [], tool_call_id = None\<rparr>;
            call = \<lparr>payload = Some \<lparr>p_messages = [newHumanMessage], p_context = None\<rparr>,
                    options = submit_mode_options (Some (OptimisticPrompt newHumanMessage))\<rparr>
        in s\<lparr>firstTokenReceived := False,
             submitted := submitted s @ [call]\<rparr>)"

definition handleRegenerate :: "checkpoint_arg \<Rightarrow> thread_state \<Rightarrow> thread_state" where
  "handleRegenerate parentCheckpoint s =
     s\<lparr>prevMessageLength := prevMessageLength s - 1,
       firstTokenReceived := False,
       submitted := submitted s @
         [\<lparr>payload = None,
           options = \<lparr>o_checkpoint = Some parentCheckpoint, o_streamMode = [Values],
                      o_streamSubgraphs = True, o_streamResumable = True,
                      o_optimisticValues = None\<rparr>\<rparr>]\<rparr>"

subsection \<open>Switching threads\<close>

text \<open>
  Modelled from the spec: \<open>closeArtifact\<close>, which the hook \<open>useArtifactOpen\<close>
  of \<open>./artifact\<close> returns together with the flag \<open>artifactOpen\<close>; the body of
  the hook is missing. The spec has a thread switch close any open side panel.
\<close>

definition closeArtifact :: "thread_state \<Rightarrow> thread_state" where
  "closeArtifact s = s\<lparr>artifactOpen := False\<rparr>"

definition setThreadId :: "js_string option \<Rightarrow> thread_state \<Rightarrow> thread_state" where
  "setThreadId i s = (closeArtifact (s\<lparr>threadId := i\<rparr>))\<lparr>artifactContext := []\<rparr>"

subsection \<open>The rendered projection\<close>

text \<open>
  \<open>m.id?.startsWith(DO_NOT_RENDER_ID_PREFIX)\<close> is \<open>undefined\<close> when the message
  has no id and a boolean otherwise; the filter keeps a message when the negation
  of that value is true. The prefix is a constant of
  \<open>@/lib/ensure-tool-responses\<close> and is the parameter \<open>pfx\<close> here.
\<close>

definition id_startsWith :: "js_string \<Rightarrow> message \<Rightarrow> js_value" where
  "id_startsWith pfx m =
     (case msg_id m of None \<Rightarrow> JUndefined | Some i \<Rightarrow> JBool (startsWith i pfx))"

definition rendered :: "js_string \<Rightarrow> message list \<Rightarrow> message list" where
  "rendered pfx ms = filter (\<lambda>m. \<not> truthy (id_startsWith pfx m)) ms"

text \<open>The same test in the words of the spec: the id carries the reserved prefix.\<close>

definition reserved_id :: "js_string \<Rightarrow> message \<Rightarrow> bool" where
  "reserved_id pfx m = (case msg_id m of None \<Rightarrow> False | Some i \<Rightarrow> prefix pfx i)"


section \<open>The tool-call normalizer\<close>

text \<open>
  The body of \<open>ensureToolCallsHaveResponses\<close> in \<open>@/lib/ensure-tool-responses\<close>
  is missing; the definitions of this section follow the spec (3 and 4.3).
\<close>

text \<open>Modelled from the spec: a tool-response message is a message of type tool.\<close>

definition is_tool :: "message \<Rightarrow> bool" where
  "is_tool m = (msg_type m = Tool)"

text \<open>
  Modelled from the spec: a response matches an invocation when its
  \<open>tool_call_id\<close> is the id of the invocation.
\<close>

definition answered :: "message list \<Rightarrow> tool_call \<Rightarrow> bool" where
  "answered responses tc = (Some (tc_id tc) \<in> set (map tool_call_id responses))"

text \<open>
  Modelled from the spec: the synthesized tool response for an invocation. Synthetic
  entries carry the reserved id prefix; the spec gives neither the rest of the id
  nor a content, so \<open>fresh\<close> supplies the former and the latter is empty.
\<close>

definition synthesize :: "js_string \<Rightarrow> (tool_call \<Rightarrow> js_string) \<Rightarrow> tool_call \<Rightarrow> message" where
  "synthesize pfx fresh tc =
     \<lparr>msg_id = Some (pfx @ fresh tc), msg_type = Tool, msg_content = [],
      tool_calls = [], tool_call_id = Some (tc_id tc)\<rparr>"

text \<open>
  Modelled from the spec: the responses that follow the ai message \<open>m\<close> in the
  result, namely the tool messages that follow it in the history \<open>ms\<close>, then one
  synthesized response for each invocation of \<open>m\<close> that none of them answers.
\<close>

definition responses_for ::
  "js_string \<Rightarrow> (tool_call \<Rightarrow> js_string) \<Rightarrow> message \<Rightarrow> message list \<Rightarrow> message list" where
  "responses_for pfx fresh m ms =
     (let following = takeWhile is_tool ms;
          missing = filter (\<lambda>tc. \<not> answered following tc) (tool_calls m)
      in following @ map (synthesize pfx fresh) missing)"

text \<open>
  Modelled from the spec: \<open>ensureToolCallsHaveResponses\<close>, the missing normalizer.
  \<open>normalize(transcript)\<close> returns a transcript in which every ai-type message
  that issues one or more tool invocations is immediately followed by matching
  tool-response messages for each invocation, inserting them if the history omitted
  them. Every other message is kept in its place.
\<close>

function ensureToolCallsHaveResponses ::
  "js_string \<Rightarrow> (tool_call \<Rightarrow> js_string) \<Rightarrow> message list \<Rightarrow> message list" where
  "ensureToolCallsHaveResponses pfx fresh [] = []"
| "ensureToolCallsHaveResponses pfx fresh (m # ms) =
     (if msg_type m = Ai \<and> tool_calls m \<noteq> []
      then m # responses_for pfx fresh m ms
             @ ensureToolCallsHaveResponses pfx fresh (dropWhile is_tool ms)
      else m # ensureToolCallsHaveResponses pfx fresh ms)"
  by pat_completeness auto
termination
  by (relation "measure (\<lambda>(pfx, fresh, ms). length ms)")
     (auto simp: length_dropWhile_le less_Suc_eq_le)


section \<open>Sample data\<close>

text \<open>
  A freshly mounted thread: the \<open>useState\<close> and \<open>useRef\<close> defaults, an empty
  transcript, no call made yet.
\<close>

definition initial_thread :: thread_state where
  "initial_thread =
     \<lparr>threadId = None, artifactContext = [], artifactOpen = False, input = [],
      contentBlocks = [], firstTokenReceived = False, lastError = JUndefined,
      prevMessageLength = 0, messages = [], isLoading = False, submitted = [],
      toasts = []\<rparr>"

text \<open>\<open>"do-"\<close>, \<open>"Hi"\<close>, \<open>"boom"\<close> and \<open>"oops"\<close> as code units.\<close>

definition sample_prefix :: js_string where
  "sample_prefix = [0x64, 0x6F, 0x2D]"

definition text_hi :: js_string where
  "text_hi = [0x48, 0x69]"

definition text_boom :: js_string where
  "text_boom = [0x62, 0x6F, 0x6F, 0x6D]"

definition text_oops :: js_string where
  "text_oops = [0x6F, 0x6F, 0x70, 0x73]"

definition human_hi :: message where
  "human_hi = \<lparr>msg_id = Some [0x68, 0x31], msg_type = Human,
               msg_content = [TextBlock text_hi], tool_calls = [], tool_call_id = None\<rparr>"

definition ai_calling :: message where
  "ai_calling = \<lparr>msg_id = Some [0x61, 0x31], msg_type = Ai, msg_content = [],
                 tool_calls = [\<lparr>tc_id = [0x74, 0x31], tc_name = [0x66]\<rparr>],
                 tool_call_id = None\<rparr>"

definition ai_reply :: message where
  "ai_reply = \<lparr>msg_id = None, msg_type = Ai, msg_content = [TextBlock text_hi],
               tool_calls = [], tool_call_id = None\<rparr>"

definition tool_result :: message where
  "tool_result = \<lparr>msg_id = Some [0x72, 0x31], msg_type = Tool, msg_content = [],
                  tool_calls = [], tool_call_id = Some [0x74, 0x31]\<rparr>"

definition hidden_tool_result :: message where
  "hidden_tool_result = \<lparr>msg_id = Some [0x64, 0x6F, 0x2D, 0x39], msg_type = Tool,
                         msg_content = [], tool_calls = [],
                         tool_call_id = Some [0x74, 0x31]\<rparr>"

definition sample_fresh :: "tool_call \<Rightarrow> js_string" where
  "sample_fresh tc = [0x39]"

text \<open>
  A thread showing two messages whose input box holds only a space, a line feed
  and an ideographic space, with the loading placeholder already ended.
\<close>

definition blank_thread :: thread_state where
  "blank_thread =
     initial_thread\<lparr>input := [0x20, 0x0A, 0x3000], firstTokenReceived := True,
                     messages := [human_hi, ai_reply]\<rparr>"

text \<open>
  Two threads waiting for an answer after one human message was counted: in the
  first a tool message arrives last, in the second an ai message.
\<close>

definition awaiting_thread :: thread_state where
  "awaiting_thread =
     initial_thread\<lparr>messages := [human_hi, tool_result], prevMessageLength := 1,
                     isLoading := True\<rparr>"

definition answering_thread :: thread_state where
  "answering_thread =
     initial_thread\<lparr>messages := [human_hi, ai_reply], prevMessageLength := 1,
                     isLoading := True\<rparr>"

text \<open>
  An idle thread with text in the input box, an open artifact panel and one key in
  the artifact context; its last ai message issued a tool call that has no response.
\<close>

definition typing_thread :: thread_state where
  "typing_thread =
     initial_thread\<lparr>input := text_hi, artifactContext := [([0x6B], JStr text_boom)],
                     artifactOpen := True, firstTokenReceived := True,
                     messages := [human_hi, ai_calling], prevMessageLength := 2\<rparr>"

text \<open>A thread whose stream is in flight.\<close>

definition loading_thread :: thread_state where
  "loading_thread =
     initial_thread\<lparr>input := text_hi, messages := [human_hi], prevMessageLength := 1,
                     isLoading := True\<rparr>"

definition sample_checkpoint :: checkpoint_arg where
  "sample_checkpoint = CkAt (Checkpoint [0x63, 0x31])"



section \<open>Properties\<close>

subsection \<open>Helper lemmas\<close>

lemma startsWith_prefix: "startsWith s p = prefix p s"
  by (induction s p rule: startsWith.induct) auto

lemma truthy_id_startsWith: "truthy (id_startsWith pfx m) = reserved_id pfx m"
  by (simp add: id_startsWith_def reserved_id_def startsWith_prefix split: option.split)

lemma error_effect_repeat:
  "lastError s = m \<Longrightarrow> error_effects (replicate n (Error (Reads m))) s = s"
  by (induction n) simp_all

lemma handleSubmit_while_loading: "isLoading s \<Longrightarrow> handleSubmit ensure uuid s = s"
  by (simp add: handleSubmit_def)

lemma handleSuggestedPrompt_while_loading:
  "isLoading s \<Longrightarrow> handleSuggestedPrompt uuid prompt s = s"
  by (simp add: handleSuggestedPrompt_def)



















subsection \<open>Empty submissions\<close>

text \<open>
  C1. When the trimmed input text is empty and no content block is pending,
  \<open>handleSubmit\<close> returns the state it was given: the log of \<open>stream.submit\<close>
  calls gains nothing, \<open>firstTokenReceived\<close> keeps its value, and the transcript,
  the input and the content blocks are as before.
\<close>

theorem handleSubmit_empty_is_noop:
  "trim (input s) = [] \<Longrightarrow> contentBlocks s = [] \<Longrightarrow> handleSubmit ensure uuid s = s"
  by (simp add: handleSubmit_def)

theorem handleSubmit_empty_is_noop_witness:
  "trim (input blank_thread) = [] \<and> contentBlocks blank_thread = []
   \<and> submitted (handleSubmit (ensureToolCallsHaveResponses sample_prefix sample_fresh)
                   text_hi blank_thread) = []
   \<and> firstTokenReceived (handleSubmit (ensureToolCallsHaveResponses sample_prefix sample_fresh)
                            text_hi blank_thread)"
proof -
  have t: "trim (input blank_thread) = []"
    by (simp add: blank_thread_def initial_thread_def trim_def is_whitespace_def)
  have c: "contentBlocks blank_thread = []"
    by (simp add: blank_thread_def initial_thread_def)
  show ?thesis
    using t c handleSubmit_empty_is_noop
      [OF t c, of "ensureToolCallsHaveResponses sample_prefix sample_fresh" text_hi]
    by (simp add: blank_thread_def initial_thread_def)
qed

subsection \<open>First-token tracking\<close>

text \<open>
  C2, as the claim states it, fails: the transcript length has changed and the last
  entry is a tool-type message, yet the effect leaves \<open>firstTokenReceived\<close> false.
\<close>

theorem tool_entry_counterexample:
  "int (length (messages awaiting_thread)) \<noteq> prevMessageLength awaiting_thread
   \<and> msg_type (last (messages awaiting_thread)) = Tool
   \<and> \<not> firstTokenReceived awaiting_thread
   \<and> \<not> firstTokenReceived (messages_effect awaiting_thread)"
  by (simp add: awaiting_thread_def initial_thread_def messages_effect_def
        tool_result_def human_hi_def)

text \<open>
  C2, amended. After a run of the first-token effect \<open>firstTokenReceived\<close> is true
  exactly when it was true before or the transcript length differs from the
  recorded one, the transcript is not empty and its last entry is an ai-type
  message; the effect records the new length. \<open>handleRegenerate\<close> always leaves
  the flag false, and so do \<open>handleSubmit\<close> and \<open>handleSuggestedPrompt\<close> whenever
  they call \<open>stream.submit\<close>.
\<close>

theorem first_token_tracking:
  "firstTokenReceived (messages_effect s) =
     (firstTokenReceived s \<or>
      (int (length (messages s)) \<noteq> prevMessageLength s \<and> messages s \<noteq> []
       \<and> msg_type (last (messages s)) = Ai))
   \<and> prevMessageLength (messages_effect s) = int (length (messages s))
   \<and> \<not> firstTokenReceived (handleRegenerate c s)
   \<and> (submitted (handleSubmit ensure uuid s) \<noteq> submitted s
        \<longrightarrow> \<not> firstTokenReceived (handleSubmit ensure uuid s))
   \<and> (submitted (handleSuggestedPrompt uuid prompt s) \<noteq> submitted s
        \<longrightarrow> \<not> firstTokenReceived (handleSuggestedPrompt uuid prompt s))"
  by (simp add: messages_effect_def handleRegenerate_def handleSubmit_def
        handleSuggestedPrompt_def Let_def)

theorem first_token_tracking_witness:
  "firstTokenReceived (messages_effect answering_thread)
   \<and> \<not> firstTokenReceived answering_thread
   \<and> prevMessageLength (messages_effect answering_thread) = 2
   \<and> \<not> firstTokenReceived (handleRegenerate sample_checkpoint typing_thread)
   \<and> submitted (handleSubmit (ensureToolCallsHaveResponses sample_prefix sample_fresh)
        text_oops typing_thread) \<noteq> submitted typing_thread
   \<and> firstTokenReceived typing_thread
   \<and> \<not> firstTokenReceived
          (handleSubmit (ensureToolCallsHaveResponses sample_prefix sample_fresh)
             text_oops typing_thread)
   \<and> submitted (handleSuggestedPrompt text_oops text_hi typing_thread)
        \<noteq> submitted typing_thread
   \<and> \<not> firstTokenReceived (handleSuggestedPrompt text_oops text_hi typing_thread)"
proof -
  have a: "submitted (handleSubmit (ensureToolCallsHaveResponses sample_prefix sample_fresh)
        text_oops typing_thread) \<noteq> submitted typing_thread"
    by (simp add: handleSubmit_def typing_thread_def initial_thread_def trim_def
          is_whitespace_def text_hi_def Let_def)
  have b: "submitted (handleSuggestedPrompt text_oops text_hi typing_thread)
             \<noteq> submitted typing_thread"
    by (simp add: handleSuggestedPrompt_def typing_thread_def initial_thread_def Let_def)
  have c: "firstTokenReceived typing_thread" "\<not> firstTokenReceived answering_thread"
    "int (length (messages answering_thread)) \<noteq> prevMessageLength answering_thread"
    "messages answering_thread \<noteq> []" "msg_type (last (messages answering_thread)) = Ai"
    "int (length (messages answering_thread)) = 2"
    by (simp_all add: typing_thread_def answering_thread_def initial_thread_def ai_reply_def)
  show ?thesis
    using a b c
      first_token_tracking [of answering_thread sample_checkpoint
        "ensureToolCallsHaveResponses sample_prefix sample_fresh" text_oops text_hi]
      first_token_tracking [of typing_thread sample_checkpoint
        "ensureToolCallsHaveResponses sample_prefix sample_fresh" text_oops text_hi]
    by simp
qed

subsection \<open>Error notifications\<close>

text \<open>
  C3, as the claim states it, fails for the empty message text, which is falsy:
  on a fresh thread two consecutive errors whose message is the empty string, a
  text that differs from the stored key, log no notification at all.
\<close>

theorem empty_text_counterexample:
  "lastError initial_thread \<noteq> JStr []
   \<and> toasts (error_effects [Error (Reads (JStr [])), Error (Reads (JStr []))]
               initial_thread) = []"
  by (simp add: initial_thread_def)

text \<open>
  C3, amended. For a truthy (non-empty) message text \<open>m\<close>: an error whose text
  differs from the stored key \<open>lastError\<close> logs exactly one notification and stores
  the text, and a run of two or more consecutive errors with that text logs exactly
  one; an error whose text is the stored key changes nothing; a falsy
  \<open>stream.error\<close> resets the key to undefined without a notification, so that the
  next error with any truthy text notifies again.
\<close>

theorem error_deduplication:
  assumes "truthy m"
  shows "(lastError s \<noteq> m \<longrightarrow>
            toasts (error_effect (Error (Reads m)) s) = toasts s @ [m]
            \<and> lastError (error_effect (Error (Reads m)) s) = m
            \<and> toasts (error_effects (replicate (Suc (Suc n)) (Error (Reads m))) s)
                = toasts s @ [m])
         \<and> (lastError s = m \<longrightarrow> error_effect (Error (Reads m)) s = s)
         \<and> lastError (error_effect NoError s) = JUndefined
         \<and> toasts (error_effect NoError s) = toasts s
         \<and> toasts (error_effects [NoError, Error (Reads m)] s) = toasts s @ [m]"
proof -
  have "truthy m \<Longrightarrow> m \<noteq> JUndefined" by auto
  with assms have u: "m \<noteq> JUndefined" by simp
  have r: "lastError s \<noteq> m \<Longrightarrow>
     error_effects (replicate (Suc n) (Error (Reads m))) (error_effect (Error (Reads m)) s)
       = error_effect (Error (Reads m)) s"
    using assms by (intro error_effect_repeat) simp
  show ?thesis using assms u r by auto
qed

theorem error_deduplication_witness:
  "truthy (JStr text_boom)
   \<and> toasts (error_effects [Error (Reads (JStr text_boom)), Error (Reads (JStr text_boom))]
        initial_thread) = [JStr text_boom]
   \<and> toasts (error_effects [Error (Reads (JStr text_boom)), Error (Reads (JStr text_boom)),
                              Error (Reads (JStr text_oops))] initial_thread)
       = [JStr text_boom, JStr text_oops]
   \<and> toasts (error_effects [Error (Reads (JStr text_boom)), NoError,
                              Error (Reads (JStr text_boom))] initial_thread)
       = [JStr text_boom, JStr text_boom]"
proof -
  have t: "truthy (JStr text_boom)" by (simp add: text_boom_def)
  have "lastError initial_thread \<noteq> JStr text_boom" by (simp add: initial_thread_def)
  with error_deduplication [OF t, of initial_thread 0]
  have "toasts (error_effects [Error (Reads (JStr text_boom)), Error (Reads (JStr text_boom))]
        initial_thread) = toasts initial_thread @ [JStr text_boom]"
    by (simp add: numeral_2_eq_2)
  then show ?thesis using t
    by (simp add: initial_thread_def text_boom_def text_oops_def)
qed

subsection \<open>Regeneration\<close>

text \<open>
  C4. For every checkpoint argument \<open>c\<close>, \<open>handleRegenerate c\<close> leaves
  \<open>firstTokenReceived\<close> false, lowers \<open>prevMessageLength\<close> by exactly one (one
  less than after a \<open>handleSubmit\<close>, which leaves the counter alone), and adds one
  call to the log of \<open>stream.submit\<close> whose payload is undefined and whose
  \<open>checkpoint\<close> option is \<open>c\<close>; the transcript is as before.
\<close>

theorem handleRegenerate_bookkeeping:
  "\<not> firstTokenReceived (handleRegenerate c s)
   \<and> prevMessageLength (handleRegenerate c s) = prevMessageLength s - 1
   \<and> prevMessageLength (handleRegenerate c s)
       = prevMessageLength (handleSubmit ensure uuid s) - 1
   \<and> (\<exists>call. submitted (handleRegenerate c s) = submitted s @ [call]
          \<and> payload call = None \<and> o_checkpoint (options call) = Some c)
   \<and> messages (handleRegenerate c s) = messages s"
  by (simp add: handleRegenerate_def handleSubmit_def Let_def)

theorem handleRegenerate_bookkeeping_witness:
  "\<not> firstTokenReceived (handleRegenerate sample_checkpoint typing_thread)
   \<and> firstTokenReceived typing_thread
   \<and> prevMessageLength (handleRegenerate sample_checkpoint typing_thread) = 1
   \<and> map payload (submitted (handleRegenerate sample_checkpoint typing_thread)) = [None]
   \<and> map (o_checkpoint \<circ> options)
        (submitted (handleRegenerate sample_checkpoint typing_thread))
       = [Some sample_checkpoint]"
proof -
  have p: "prevMessageLength typing_thread = 2" "submitted typing_thread = []"
    "firstTokenReceived typing_thread"
    by (simp_all add: typing_thread_def initial_thread_def)
  from handleRegenerate_bookkeeping
         [of sample_checkpoint typing_thread
             "ensureToolCallsHaveResponses sample_prefix sample_fresh" text_oops]
  show ?thesis using p by auto
qed

subsection \<open>Artifact context\<close>

text \<open>
  C5. Whenever \<open>handleSubmit\<close> submits (the stream is idle and there is text or
  a content block), the \<open>context\<close> field of the payload is the artifact context
  when that has at least one key and undefined when it is empty, and the optimistic
  update sets the \<open>context\<close> of the thread values to the same value.
\<close>

theorem context_attached_only_when_nonempty:
  assumes "\<not> isLoading s" and "trim (input s) \<noteq> [] \<or> contentBlocks s \<noteq> []"
  shows "\<exists>call p opt.
           submitted (handleSubmit ensure uuid s) = submitted s @ [call]
           \<and> payload call = Some p
           \<and> o_optimisticValues (options call) = Some opt
           \<and> p_context p = (if artifactContext s = [] then None else Some (artifactContext s))
           \<and> (\<forall>prev. v_context (apply_optimistic opt prev) = p_context p)"
  using assms by (simp add: handleSubmit_def Let_def submit_mode_options_def)

theorem context_attached_only_when_nonempty_witness:
  "\<not> isLoading typing_thread \<and> trim (input typing_thread) \<noteq> []
   \<and> map (map_option p_context \<circ> payload)
        (submitted (handleSubmit (ensureToolCallsHaveResponses sample_prefix sample_fresh)
                      text_oops typing_thread))
       = [Some (Some [([0x6B], JStr text_boom)])]
   \<and> map (map_option p_context \<circ> payload)
        (submitted (handleSubmit (ensureToolCallsHaveResponses sample_prefix sample_fresh)
                      text_oops (typing_thread\<lparr>artifactContext := []\<rparr>)))
       = [Some None]"
proof -
  have a: "\<not> isLoading typing_thread" "\<not> isLoading (typing_thread\<lparr>artifactContext := []\<rparr>)"
    by (simp_all add: typing_thread_def initial_thread_def)
  have b: "trim (input typing_thread) \<noteq> []"
    by (simp add: typing_thread_def initial_thread_def trim_def is_whitespace_def text_hi_def)
  then have b': "trim (input (typing_thread\<lparr>artifactContext := []\<rparr>)) \<noteq> []" by simp
  have s: "submitted typing_thread = []"
    "artifactContext typing_thread = [([0x6B], JStr text_boom)]"
    by (simp_all add: typing_thread_def initial_thread_def)
  from context_attached_only_when_nonempty
         [OF a(1) disjI1 [OF b],
          of "ensureToolCallsHaveResponses sample_prefix sample_fresh" text_oops]
       context_attached_only_when_nonempty
         [OF a(2) disjI1 [OF b'],
          of "ensureToolCallsHaveResponses sample_prefix sample_fresh" text_oops]
  show ?thesis using a b s by auto
qed

text \<open>
  C6. For every id, null included, \<open>setThreadId\<close> leaves the artifact panel
  closed and the artifact context empty, and sets the thread id; a \<open>handleSubmit\<close>
  that follows either submits nothing or submits a payload whose \<open>context\<close> is
  undefined.
\<close>

theorem setThreadId_clears_artifact:
  "\<not> artifactOpen (setThreadId i s)
   \<and> artifactContext (setThreadId i s) = []
   \<and> threadId (setThreadId i s) = i
   \<and> (submitted (handleSubmit ensure uuid (setThreadId i s)) = submitted s
      \<or> (\<exists>call p. submitted (handleSubmit ensure uuid (setThreadId i s)) = submitted s @ [call]
            \<and> payload call = Some p \<and> p_context p = None))"
  by (simp add: setThreadId_def closeArtifact_def handleSubmit_def Let_def)

theorem setThreadId_clears_artifact_witness:
  "artifactOpen typing_thread \<and> artifactContext typing_thread \<noteq> []
   \<and> \<not> artifactOpen (setThreadId None typing_thread)
   \<and> artifactContext (setThreadId None typing_thread) = []
   \<and> map (map_option p_context \<circ> payload)
        (submitted (handleSubmit (ensureToolCallsHaveResponses sample_prefix sample_fresh)
                      text_oops (setThreadId None typing_thread)))
       = [Some None]"
proof -
  have s: "submitted typing_thread = []" "artifactOpen typing_thread"
    "artifactContext typing_thread \<noteq> []"
    by (simp_all add: typing_thread_def initial_thread_def)
  have n: "submitted (handleSubmit (ensureToolCallsHaveResponses sample_prefix sample_fresh)
             text_oops (setThreadId None typing_thread)) \<noteq> []"
    by (simp add: handleSubmit_def setThreadId_def closeArtifact_def typing_thread_def
          initial_thread_def trim_def is_whitespace_def text_hi_def Let_def)
  from setThreadId_clears_artifact
         [of None typing_thread
             "ensureToolCallsHaveResponses sample_prefix sample_fresh" text_oops]
  show ?thesis using s n by auto
qed

subsection \<open>Submitting while a stream is in flight\<close>

text \<open>
  C7. While \<open>isLoading\<close> is true \<open>handleSubmit\<close> and \<open>handleSuggestedPrompt\<close>
  return the state they were given, but \<open>handleRegenerate\<close> has no such test: on a
  loading thread it calls \<open>stream.submit\<close> once more and lowers
  \<open>prevMessageLength\<close>.
\<close>

theorem handleRegenerate_while_loading:
  "isLoading loading_thread
   \<and> handleSubmit (ensureToolCallsHaveResponses sample_prefix sample_fresh)
        text_oops loading_thread = loading_thread
   \<and> handleSuggestedPrompt text_oops text_hi loading_thread = loading_thread
   \<and> length (submitted (handleRegenerate sample_checkpoint loading_thread))
       = length (submitted loading_thread) + 1
   \<and> prevMessageLength (handleRegenerate sample_checkpoint loading_thread)
       = prevMessageLength loading_thread - 1"
  by (simp add: loading_thread_def initial_thread_def handleSubmit_def
        handleSuggestedPrompt_def handleRegenerate_def)

subsection \<open>The normalizer and the rendered history\<close>




text \<open>
  C9. The rendered projection of a message list is the list without the messages
  whose id starts with the reserved prefix: it keeps every other message, those
  without an id among them, and it keeps them in their order.
\<close>

theorem rendered_excludes_reserved_ids:
  "rendered pfx ms = filter (\<lambda>m. \<not> reserved_id pfx m) ms
   \<and> subseq (rendered pfx ms) ms
   \<and> (\<forall>m \<in> set ms. msg_id m = None \<longrightarrow> m \<in> set (rendered pfx ms))"
  by (simp add: rendered_def truthy_id_startsWith reserved_id_def)

theorem rendered_excludes_reserved_ids_witness:
  "rendered sample_prefix [human_hi, hidden_tool_result, ai_reply, tool_result]
     = [human_hi, ai_reply, tool_result]
   \<and> reserved_id sample_prefix hidden_tool_result
   \<and> msg_id ai_reply = None"
proof -
  have "filter (\<lambda>m. \<not> reserved_id sample_prefix m)
          [human_hi, hidden_tool_result, ai_reply, tool_result]
        = [human_hi, ai_reply, tool_result]"
    by (simp add: reserved_id_def sample_prefix_def human_hi_def hidden_tool_result_def
          ai_reply_def tool_result_def)
  with rendered_excludes_reserved_ids
         [of sample_prefix "[human_hi, hidden_tool_result, ai_reply, tool_result]"]
  show ?thesis
    by (simp add: reserved_id_def sample_prefix_def hidden_tool_result_def ai_reply_def)
qed

subsection \<open>Errors without a message\<close>

text \<open>
  C10. When \<open>stream.error\<close> is set and the value read from its \<open>message\<close>
  property is falsy (undefined because there is no such property, the empty string,
  null, zero or false), the error effect returns the state it was given: no
  notification is logged and \<open>lastError\<close> keeps its value.
\<close>

theorem falsy_error_message_is_swallowed:
  "\<not> truthy message \<Longrightarrow> error_effect (Error (Reads message)) s = s"
  by simp

theorem falsy_error_message_is_swallowed_witness:
  "\<not> truthy (JStr []) \<and> \<not> truthy JUndefined
   \<and> error_effect (Error (Reads (JStr []))) (initial_thread\<lparr>lastError := JStr text_boom\<rparr>)
       = initial_thread\<lparr>lastError := JStr text_boom\<rparr>
   \<and> toasts (error_effect (Error (Reads JUndefined)) initial_thread) = []"
  using falsy_error_message_is_swallowed
          [of "JStr []" "initial_thread\<lparr>lastError := JStr text_boom\<rparr>"]
        falsy_error_message_is_swallowed [of JUndefined initial_thread]
  by (simp add: initial_thread_def)

end
